theory Spec2Isabelle
  imports Complex_Main
begin

section \<open>Python values and failures\<close>

text \<open>
  The car-following laws of \<^verbatim>\<open>carfollow.py\<close> compute with Python's built-in floats.
  A float is modelled as a real number: rounding and NaN are outside the model, and a real
  beyond the range of a float stands for the infinity that a float operation returns there
  without raising. What the model keeps is every way in which an expression of the source
  can raise: reading an attribute that was never assigned, dividing by zero, \<^verbatim>\<open>math.sqrt\<close>
  of a negative or of a complex number, and a power that overflows. A computation returns
  \<open>Inl\<close> of the exception or \<open>Inr\<close> of its value, and sub-expressions are chained in
  Python's left-to-right evaluation order.
\<close>

datatype error = AttributeError | ZeroDivisionError | ValueError | OverflowError | TypeError

definition bind_res :: "error + 'a \<Rightarrow> ('a \<Rightarrow> error + 'b) \<Rightarrow> error + 'b" where
  "bind_res m f = (case m of Inl e \<Rightarrow> Inl e | Inr x \<Rightarrow> f x)"

text \<open>
  A power of a negative float with a fractional exponent is a complex number in Python 3,
  and the arithmetic that follows carries it on. A number is therefore a float or a complex.
\<close>

datatype pyval = PyFloat real | PyComplex complex

fun as_complex :: "pyval \<Rightarrow> complex" where
  "as_complex (PyFloat x) = of_real x"
| "as_complex (PyComplex z) = z"

text \<open>\<^verbatim>\<open>a - b\<close> and \<^verbatim>\<open>a * b\<close>: complex as soon as one operand is.\<close>

fun py_sub :: "pyval \<Rightarrow> pyval \<Rightarrow> pyval" where
  "py_sub (PyFloat x) (PyFloat y) = PyFloat (x - y)"
| "py_sub a b = PyComplex (as_complex a - as_complex b)"

fun py_mul :: "pyval \<Rightarrow> pyval \<Rightarrow> pyval" where
  "py_mul (PyFloat x) (PyFloat y) = PyFloat (x * y)"
| "py_mul a b = PyComplex (as_complex a * as_complex b)"

text \<open>The largest finite float, and the reals that stand for an infinity.\<close>

definition FLOAT_MAX :: real where
  "FLOAT_MAX = 2 ^ 1024 - 2 ^ 971"

definition isinf :: "real \<Rightarrow> bool" where
  "isinf x = (FLOAT_MAX < \<bar>x\<bar>)"

text \<open>\<^verbatim>\<open>x / y\<close> on floats: only a zero divisor raises.\<close>

definition py_div :: "real \<Rightarrow> real \<Rightarrow> error + real" where
  "py_div x y = (if y = 0 then Inl ZeroDivisionError else Inr (x / y))"

text \<open>
  \<^verbatim>\<open>math.sqrt(x)\<close>: a math domain error below zero, a type error on a complex number.
\<close>

fun py_sqrt :: "pyval \<Rightarrow> error + real" where
  "py_sqrt (PyFloat x) = (if x < 0 then Inl ValueError else Inr (sqrt x))"
| "py_sqrt (PyComplex z) = Inl TypeError"

text \<open>
  \<^verbatim>\<open>x ** y\<close> on floats, in the order in which the interpreter sorts out the cases:
  anything to the power 0 is 1; an infinite exponent and an infinite base give 0, 1 or an
  infinity without raising; zero to a negative power raises ZeroDivisionError; a negative
  base under a fractional exponent gives the complex number of modulus \<open>\<bar>x\<bar> ** y\<close> and
  argument \<open>pi * y\<close>; every other case is the real power. A finite base and exponent whose
  power leaves the range of a float raise OverflowError.
\<close>

definition odd_integer :: "real \<Rightarrow> bool" where
  "odd_integer y = (y \<in> \<int> \<and> odd \<lfloor>y\<rfloor>)"

definition py_pow :: "real \<Rightarrow> real \<Rightarrow> error + pyval" where
  "py_pow x y =
     (if y = 0 then Inr (PyFloat 1)
      else if isinf y then
        Inr (PyFloat (if \<bar>x\<bar> = 1 then 1 else if (0 < y) = (1 < \<bar>x\<bar>) then \<bar>y\<bar> else 0))
      else if isinf x then
        Inr (PyFloat (if 0 < y then (if odd_integer y then x else \<bar>x\<bar>) else 0))
      else if x = 0 then
        (if y < 0 then Inl ZeroDivisionError else Inr (PyFloat 0))
      else if x < 0 \<and> y \<notin> \<int> then
        (if isinf (\<bar>x\<bar> powr y) then Inl OverflowError
         else Inr (PyComplex (of_real (\<bar>x\<bar> powr y) * cis (pi * y))))
      else
        (let r = (if y \<in> \<int> then x powi \<lfloor>y\<rfloor> else x powr y)
         in if isinf r then Inl OverflowError else Inr (PyFloat r)))"

text \<open>Reading a slot: \<open>None\<close> is a slot that no assignment has filled yet.\<close>

definition read_slot :: "'a option \<Rightarrow> error + 'a" where
  "read_slot x = (case x of None \<Rightarrow> Inl AttributeError | Some y \<Rightarrow> Inr y)"

text \<open>The truth value of \<^verbatim>\<open>self.veh_lead\<close> in \<^verbatim>\<open>if self.veh_lead:\<close>.\<close>

definition truthy :: "'a option \<Rightarrow> bool" where
  "truthy x = (case x of None \<Rightarrow> False | Some y \<Rightarrow> True)"

section \<open>The vehicle and the constants of module \<^verbatim>\<open>vehicles\<close>\<close>

text \<open>
  Modelled from the spec: the constants \<^verbatim>\<open>DT\<close>, \<^verbatim>\<open>K_X\<close>, \<^verbatim>\<open>W_I\<close> and \<^verbatim>\<open>U_I\<close> that
  \<^verbatim>\<open>carfollow.py\<close> imports from module \<^verbatim>\<open>vehicles\<close>, whose source is not available.
  The spec names them (time step, jam density, shockwave speed, free-flow speed) without
  giving values, so they are parameters of every definition that reads them.
\<close>

record constants =
  DT :: real
  K_X :: real
  W_I :: real
  U_I :: real

text \<open>
  Modelled from the spec: the base class \<^verbatim>\<open>Vehicle\<close> of module \<^verbatim>\<open>vehicles\<close>, whose
  source is not available. The spec describes it as the holder of position, speed,
  acceleration and control input together with an optional reference to one leader. The
  fields are the attributes that \<^verbatim>\<open>carfollow.py\<close> reads or writes on \<^verbatim>\<open>self\<close> and on
  the leader: \<^verbatim>\<open>x_t\<close>, \<^verbatim>\<open>v_t\<close>, \<^verbatim>\<open>v\<close>, \<^verbatim>\<open>a\<close>, \<^verbatim>\<open>control\<close> and \<^verbatim>\<open>veh_lead\<close>. Each is a
  plain attribute: a read returns what was last stored. The source reads the speed under
  two names, \<^verbatim>\<open>v\<close> and \<^verbatim>\<open>v_t\<close>; they are kept apart. The acceleration is the one
  attribute the laws assign, and it holds whatever they compute, a float or a complex.
\<close>

datatype vehicle =
  Vehicle (veh_x_t: real) (veh_v_t: real) (veh_v: real) (veh_a: pyval) (veh_control: real)
          (veh_lead: "vehicle option")

text \<open>The assignments \<^verbatim>\<open>self.a = ...\<close> and \<^verbatim>\<open>self.control = ...\<close>.\<close>

fun set_a :: "pyval \<Rightarrow> vehicle \<Rightarrow> vehicle" where
  "set_a r (Vehicle x vt v a ctl ld) = Vehicle x vt v r ctl ld"

fun set_control :: "real \<Rightarrow> vehicle \<Rightarrow> vehicle" where
  "set_control r (Vehicle x vt v a ctl ld) = Vehicle x vt v a r ld"

section \<open>Module constants of \<^verbatim>\<open>carfollow.py\<close>\<close>

definition T_E :: real where "T_E = 2 / 10"

definition S_0 :: "constants \<Rightarrow> error + real" where
  "S_0 c = py_div 1 (K_X c)"

definition C_1 :: real where "C_1 = 5 / 10"
definition C_2 :: real where "C_2 = 5 / 10"
definition C_3 :: real where "C_3 = 5 / 10"

definition B :: real where "B = 15 / 10"
definition DELTA :: real where "DELTA = 4"
definition V_0 :: real where "V_0 = 25"

section \<open>Class \<^verbatim>\<open>CarFollowLaw\<close>\<close>

text \<open>
  A law object is a vehicle (the inherited part, field \<open>base\<close>) with the name of its
  behaviour. The subclasses extend the record with their slots.
\<close>

record carfollowlaw =
  base :: vehicle
  behavior :: "string option"

definition CarFollowLaw_init ::
  "(real \<Rightarrow> real \<Rightarrow> vehicle option \<Rightarrow> vehicle) \<Rightarrow> real \<Rightarrow> real \<Rightarrow> vehicle option \<Rightarrow>
   string option \<Rightarrow> carfollowlaw" where
  "CarFollowLaw_init Vehicle_init x0 v0 lead bhv =
     \<lparr>base = Vehicle_init x0 v0 lead, behavior = bhv\<rparr>"

definition CarFollowLaw_u :: "constants \<Rightarrow> real" where
  "CarFollowLaw_u c = U_I c"

definition CarFollowLaw_w :: "constants \<Rightarrow> real" where
  "CarFollowLaw_w c = W_I c"

definition CarFollowLaw_k_x :: "constants \<Rightarrow> real" where
  "CarFollowLaw_k_x c = K_X c"

definition CarFollowLaw_s0 :: "constants \<Rightarrow> error + real" where
  "CarFollowLaw_s0 c = py_div 1 (CarFollowLaw_k_x c)"

text \<open>\<^verbatim>\<open>self.veh_lead.v_t\<close>: without a leader the attribute is read on \<^verbatim>\<open>None\<close>.\<close>

definition CarFollowLaw_vl :: "'a carfollowlaw_scheme \<Rightarrow> error + real" where
  "CarFollowLaw_vl st =
     (case veh_lead (base st) of None \<Rightarrow> Inl AttributeError | Some ld \<Rightarrow> Inr (veh_v_t ld))"

definition CarFollowLaw_dv :: "'a carfollowlaw_scheme \<Rightarrow> error + real" where
  "CarFollowLaw_dv st =
     (if truthy (veh_lead (base st))
      then bind_res (CarFollowLaw_vl st) (\<lambda>vl. Inr (vl - veh_v_t (base st)))
      else Inr 0)"

definition CarFollowLaw_xl :: "'a carfollowlaw_scheme \<Rightarrow> error + real" where
  "CarFollowLaw_xl st =
     (case veh_lead (base st) of None \<Rightarrow> Inl AttributeError | Some ld \<Rightarrow> Inr (veh_x_t ld))"

definition CarFollowLaw_s :: "'a carfollowlaw_scheme \<Rightarrow> error + real" where
  "CarFollowLaw_s st =
     (if truthy (veh_lead (base st))
      then bind_res (CarFollowLaw_xl st) (\<lambda>xl. Inr (xl - veh_x_t (base st)))
      else Inr 0)"

definition CarFollowLaw_T :: "constants \<Rightarrow> real" where
  "CarFollowLaw_T c = DT c"

text \<open>
  \<^verbatim>\<open>step_evolution\<close> calls \<^verbatim>\<open>shift_state\<close> of the missing base class, stores the control
  and dispatches to the subclass's \<^verbatim>\<open>car_following\<close>. Both are parameters here:
  \<open>shift_state\<close> because its source is not available, \<open>car_following\<close> because it is the
  method of whichever subclass the object belongs to.
\<close>

definition CarFollowLaw_step_evolution ::
  "(vehicle \<Rightarrow> vehicle) \<Rightarrow> (real \<Rightarrow> 'a carfollowlaw_scheme \<Rightarrow> error + 'a carfollowlaw_scheme) \<Rightarrow>
   real \<Rightarrow> real \<Rightarrow> 'a carfollowlaw_scheme \<Rightarrow> error + 'a carfollowlaw_scheme" where
  "CarFollowLaw_step_evolution shift_state car_following v_d control st =
     (let st1 = st\<lparr>base := shift_state (base st)\<rparr>;
          st2 = st1\<lparr>base := set_control control (base st1)\<rparr>
      in car_following v_d st2)"

section \<open>Class \<^verbatim>\<open>IDM\<close>\<close>

record idm = carfollowlaw +
  slot_b :: "real option"
  slot_delta :: "real option"
  slot_v0 :: "real option"

text \<open>The constructor only runs the inherited one: none of the three slots is assigned.\<close>

definition IDM_init ::
  "(real \<Rightarrow> real \<Rightarrow> vehicle option \<Rightarrow> vehicle) \<Rightarrow> real \<Rightarrow> real \<Rightarrow> vehicle option \<Rightarrow> idm" where
  "IDM_init Vehicle_init x0 v0 lead =
     carfollowlaw.extend (CarFollowLaw_init Vehicle_init x0 v0 lead (Some ''IDM''))
       (idm.fields None None None)"

definition IDM_b :: "idm \<Rightarrow> real" where
  "IDM_b st = B"

definition IDM_set_b :: "real \<Rightarrow> idm \<Rightarrow> idm" where
  "IDM_set_b val st = st\<lparr>slot_b := Some val\<rparr>"

definition IDM_delta :: "idm \<Rightarrow> error + real" where
  "IDM_delta st = read_slot (slot_delta st)"

definition IDM_set_delta :: "real \<Rightarrow> idm \<Rightarrow> idm" where
  "IDM_set_delta val st = st\<lparr>slot_delta := Some val\<rparr>"

definition IDM_v0 :: "idm \<Rightarrow> error + real" where
  "IDM_v0 st = read_slot (slot_v0 st)"

definition IDM_set_v0 :: "real \<Rightarrow> idm \<Rightarrow> idm" where
  "IDM_set_v0 val st = st\<lparr>slot_v0 := Some val\<rparr>"

definition IDM_s_star :: "constants \<Rightarrow> idm \<Rightarrow> error + real" where
  "IDM_s_star c st =
     bind_res (CarFollowLaw_s0 c) (\<lambda>s0.
     bind_res (CarFollowLaw_dv st) (\<lambda>dv.
     bind_res (py_sqrt (py_mul (veh_a (base st)) (PyFloat (IDM_b st)))) (\<lambda>r.
     bind_res (py_div (veh_v (base st) * dv) (2 * r)) (\<lambda>q.
     Inr (s0 + max 0 (veh_v (base st) * CarFollowLaw_T c + q))))))"

definition IDM_acel :: "constants \<Rightarrow> real \<Rightarrow> idm \<Rightarrow> error + pyval" where
  "IDM_acel c vd st =
     bind_res (IDM_v0 st) (\<lambda>v0.
     bind_res (py_div (veh_v (base st)) v0) (\<lambda>q.
     bind_res (IDM_delta st) (\<lambda>d.
     bind_res (py_pow q d) (\<lambda>p.
     bind_res (IDM_s_star c st) (\<lambda>ss.
     bind_res (CarFollowLaw_s st) (\<lambda>s.
     bind_res (py_div ss s) (\<lambda>r.
     bind_res (py_pow r 2) (\<lambda>r2.
     Inr (py_mul (veh_a (base st)) (py_sub (py_sub (PyFloat 1) p) r2))))))))))"

definition IDM_car_following :: "constants \<Rightarrow> real \<Rightarrow> idm \<Rightarrow> error + idm" where
  "IDM_car_following c vd st =
     (if truthy (veh_lead (base st))
      then bind_res (IDM_acel c vd st) (\<lambda>acc. Inr (st\<lparr>base := set_a acc (base st)\<rparr>))
      else Inr (st\<lparr>base := set_a (PyFloat (veh_control (base st))) (base st)\<rparr>))"

section \<open>Class \<^verbatim>\<open>Tampere\<close>\<close>

record tampere = carfollowlaw +
  slot_c1 :: "real option"
  slot_c2 :: "real option"
  slot_c3 :: "real option"

definition Tampere_c1 :: "tampere \<Rightarrow> error + real" where
  "Tampere_c1 st = read_slot (slot_c1 st)"

definition Tampere_c2 :: "tampere \<Rightarrow> error + real" where
  "Tampere_c2 st = read_slot (slot_c2 st)"

definition Tampere_c3 :: "tampere \<Rightarrow> error + real" where
  "Tampere_c3 st = read_slot (slot_c3 st)"

definition Tampere_set_c1 :: "real \<Rightarrow> tampere \<Rightarrow> tampere" where
  "Tampere_set_c1 val st = st\<lparr>slot_c1 := Some val\<rparr>"

definition Tampere_set_c2 :: "real \<Rightarrow> tampere \<Rightarrow> tampere" where
  "Tampere_set_c2 val st = st\<lparr>slot_c2 := Some val\<rparr>"

definition Tampere_set_c3 :: "real \<Rightarrow> tampere \<Rightarrow> tampere" where
  "Tampere_set_c3 val st = st\<lparr>slot_c3 := Some val\<rparr>"

text \<open>The keyword arguments are optional; an absent one takes the module's default.\<close>

definition Tampere_set_parameters ::
  "real option \<Rightarrow> real option \<Rightarrow> real option \<Rightarrow> tampere \<Rightarrow> tampere" where
  "Tampere_set_parameters c1 c2 c3 st =
     Tampere_set_c3 (case c3 of None \<Rightarrow> C_3 | Some x \<Rightarrow> x)
       (Tampere_set_c2 (case c2 of None \<Rightarrow> C_2 | Some x \<Rightarrow> x)
         (Tampere_set_c1 (case c1 of None \<Rightarrow> C_1 | Some x \<Rightarrow> x) st))"

definition Tampere_init ::
  "(real \<Rightarrow> real \<Rightarrow> vehicle option \<Rightarrow> vehicle) \<Rightarrow> real \<Rightarrow> real \<Rightarrow> vehicle option \<Rightarrow>
   real option \<Rightarrow> real option \<Rightarrow> real option \<Rightarrow> tampere" where
  "Tampere_init Vehicle_init x0 v0 lead c1 c2 c3 =
     Tampere_set_parameters c1 c2 c3
       (carfollowlaw.extend (CarFollowLaw_init Vehicle_init x0 v0 lead (Some ''Tampere''))
          (tampere.fields None None None))"

definition Tampere_s_d :: "constants \<Rightarrow> tampere \<Rightarrow> error + real" where
  "Tampere_s_d c st =
     bind_res (CarFollowLaw_s0 c) (\<lambda>s0.
     bind_res (py_div 1 (CarFollowLaw_w c * CarFollowLaw_k_x c)) (\<lambda>g.
     Inr (s0 + g * veh_v (base st))))"

definition Tampere_cong_acc :: "constants \<Rightarrow> tampere \<Rightarrow> error + real" where
  "Tampere_cong_acc c st =
     bind_res (Tampere_c1 st) (\<lambda>c1.
     bind_res (CarFollowLaw_dv st) (\<lambda>dv.
     bind_res (Tampere_c2 st) (\<lambda>c2.
     bind_res (CarFollowLaw_s st) (\<lambda>s.
     bind_res (Tampere_s_d c st) (\<lambda>sd.
     Inr (c1 * dv + c2 * (s - sd)))))))"

definition Tampere_free_acc :: "constants \<Rightarrow> real option \<Rightarrow> tampere \<Rightarrow> error + real" where
  "Tampere_free_acc c vd st =
     bind_res (Tampere_c3 st) (\<lambda>c3.
     Inr (c3 * ((case vd of None \<Rightarrow> U_I c | Some x \<Rightarrow> x) - veh_v_t (base st))))"

definition Tampere_acel :: "constants \<Rightarrow> real \<Rightarrow> tampere \<Rightarrow> error + real" where
  "Tampere_acel c vd st =
     bind_res (Tampere_cong_acc c st) (\<lambda>ca.
     bind_res (Tampere_free_acc c (Some vd) st) (\<lambda>fa.
     Inr (min ca fa)))"

definition Tampere_car_following :: "constants \<Rightarrow> real \<Rightarrow> tampere \<Rightarrow> error + tampere" where
  "Tampere_car_following c vd st =
     (if truthy (veh_lead (base st))
      then bind_res (Tampere_acel c vd st)
             (\<lambda>acc. Inr (st\<lparr>base := set_a (PyFloat acc) (base st)\<rparr>))
      else Inr (st\<lparr>base := set_a (PyFloat (veh_control (base st))) (base st)\<rparr>))"

section \<open>Observations and example objects\<close>

text \<open>Reading \<^verbatim>\<open>veh.a\<close> after a call that may have raised.\<close>

definition acceleration_after :: "error + 'a carfollowlaw_scheme \<Rightarrow> error + pyval" where
  "acceleration_after r = bind_res r (\<lambda>st. Inr (veh_a (base st)))"

text \<open>
  Concrete values for the parameters that stand for module \<^verbatim>\<open>vehicles\<close>, used in the
  examples below: constants with a jam spacing of 5, a base constructor that starts at rest
  with no control, and a \<open>shift_state\<close> that takes the current speed as the reference speed.
\<close>

definition ex_consts :: constants where
  "ex_consts = \<lparr>DT = 1 / 10, K_X = 1 / 5, W_I = 5, U_I = 25\<rparr>"

definition ex_consts_w0 :: constants where
  "ex_consts_w0 = \<lparr>DT = 1 / 10, K_X = 1 / 5, W_I = 0, U_I = 25\<rparr>"

definition ex_Vehicle_init :: "real \<Rightarrow> real \<Rightarrow> vehicle option \<Rightarrow> vehicle" where
  "ex_Vehicle_init x0 v0 lead = Vehicle x0 v0 v0 (PyFloat 0) 0 lead"

fun ex_shift_state :: "vehicle \<Rightarrow> vehicle" where
  "ex_shift_state (Vehicle x vt v a ctl ld) = Vehicle x v v a ctl ld"

text \<open>Leaders: one standing at 10, one driving at 15 from 30, one driving at 5.\<close>

definition ex_head :: vehicle where
  "ex_head = Vehicle 10 0 0 (PyFloat 0) 0 None"

definition ex_slow :: vehicle where
  "ex_slow = Vehicle 30 15 15 (PyFloat 0) 0 None"

definition ex_fast :: vehicle where
  "ex_fast = Vehicle (189 / 20) 5 5 (PyFloat 0) 0 None"

text \<open>A Tampere follower with the default coefficients, and two objects without leader.\<close>

definition ex_tampere :: tampere where
  "ex_tampere = Tampere_init ex_Vehicle_init 0 20 (Some ex_slow) None None None"

definition ex_tampere_free :: tampere where
  "ex_tampere_free = Tampere_init ex_Vehicle_init 100 20 None None None None"

definition ex_idm_free :: idm where
  "ex_idm_free = IDM_init ex_Vehicle_init 100 20 None"

text \<open>A fresh IDM follower, exactly as the constructor leaves it.\<close>

definition ex_idm_fresh :: idm where
  "ex_idm_fresh = IDM_init ex_Vehicle_init 0 20 (Some ex_slow)"

text \<open>
  IDM followers whose \<^verbatim>\<open>delta\<close> and \<^verbatim>\<open>v0\<close> have been assigned: one at rest 10 behind
  its leader, the same one after one call of \<^verbatim>\<open>car_following\<close>, one driving at its
  desired speed at exactly the desired spacing, one at its leader's position whose speed
  ratio is \<open>10 ^ 200\<close>, one at its leader's position at rest, and one driving behind a
  faster leader together with its state after one call of \<^verbatim>\<open>car_following\<close>.
\<close>

definition ex_idm :: idm where
  "ex_idm = \<lparr>base = Vehicle 0 0 0 (PyFloat 6) 0 (Some ex_head), behavior = Some ''IDM'',
     slot_b = None, slot_delta = Some 4, slot_v0 = Some 25\<rparr>"

definition ex_idm_next :: idm where
  "ex_idm_next = ex_idm\<lparr>base := set_a (PyFloat (9 / 2)) (base ex_idm)\<rparr>"

definition ex_idm_eq :: idm where
  "ex_idm_eq =
     \<lparr>base = Vehicle 0 2 2 (PyFloat 6) 0 (Some (Vehicle (26 / 5) 2 2 (PyFloat 0) 0 None)),
      behavior = Some ''IDM'', slot_b = None, slot_delta = Some 4, slot_v0 = Some 2\<rparr>"

definition ex_idm_huge :: idm where
  "ex_idm_huge =
     \<lparr>base = Vehicle 10 (10 ^ 200) (10 ^ 200) (PyFloat 6) 0 (Some ex_head),
      behavior = Some ''IDM'', slot_b = None, slot_delta = Some 4, slot_v0 = Some 1\<rparr>"

definition ex_idm_touch :: idm where
  "ex_idm_touch = \<lparr>base = Vehicle 10 0 0 (PyFloat 6) 0 (Some ex_head), behavior = Some ''IDM'',
     slot_b = None, slot_delta = Some 4, slot_v0 = Some 25\<rparr>"

definition ex_idm_run :: idm where
  "ex_idm_run = \<lparr>base = Vehicle 0 3 3 (PyFloat 6) 0 (Some ex_fast), behavior = Some ''IDM'',
     slot_b = None, slot_delta = Some 2, slot_v0 = Some (9 / 2)\<rparr>"

definition ex_idm_run_next :: idm where
  "ex_idm_run_next = ex_idm_run\<lparr>base := set_a (PyFloat (2 / 3)) (base ex_idm_run)\<rparr>"

section \<open>Basic facts\<close>

lemma bind_res_Inr [simp]: "bind_res (Inr x) f = f x"
  by (simp add: bind_res_def)

lemma bind_res_Inl [simp]: "bind_res (Inl e) f = Inl e"
  by (simp add: bind_res_def)

lemma veh_a_set_a [simp]: "veh_a (set_a r veh) = r"
  by (cases veh) simp

lemma veh_lead_set_a [simp]: "veh_lead (set_a r veh) = veh_lead veh"
  by (cases veh) simp

lemma veh_lead_set_control [simp]: "veh_lead (set_control r veh) = veh_lead veh"
  by (cases veh) simp

lemma veh_control_set_control [simp]: "veh_control (set_control r veh) = r"
  by (cases veh) simp

lemma truthy_simps [simp]: "truthy None = False" "truthy (Some x) = True"
  by (simp_all add: truthy_def)

lemma read_slot_simps [simp]:
  "read_slot None = Inl AttributeError" "read_slot (Some x) = Inr x"
  by (simp_all add: read_slot_def)

text \<open>The guard on the leader makes the reads of the leader's attributes safe.\<close>

lemma CarFollowLaw_dv_lead:
  "veh_lead (base st) = Some ld \<Longrightarrow> CarFollowLaw_dv st = Inr (veh_v_t ld - veh_v_t (base st))"
  by (simp add: CarFollowLaw_dv_def CarFollowLaw_vl_def)

lemma CarFollowLaw_dv_none:
  "veh_lead (base st) = None \<Longrightarrow> CarFollowLaw_dv st = Inr 0"
  by (simp add: CarFollowLaw_dv_def)

lemma CarFollowLaw_s_lead:
  "veh_lead (base st) = Some ld \<Longrightarrow> CarFollowLaw_s st = Inr (veh_x_t ld - veh_x_t (base st))"
  by (simp add: CarFollowLaw_s_def CarFollowLaw_xl_def)


lemma CarFollowLaw_dv_total: "\<exists>dv. CarFollowLaw_dv st = Inr dv"
  by (cases "veh_lead (base st)") (simp_all add: CarFollowLaw_dv_lead CarFollowLaw_dv_none)


lemma B_pos: "0 < B"
  by (simp add: B_def)

lemma sqrt_9: "sqrt 9 = 3"
  by (rule real_sqrt_unique) simp_all

text \<open>The range of a float, and powers inside and outside it.\<close>

lemma FLOAT_MAX_ge: "1000 \<le> FLOAT_MAX"
  by (simp add: FLOAT_MAX_def)

lemma not_isinf_small: "\<bar>x\<bar> \<le> 1000 \<Longrightarrow> \<not> isinf x"
  using FLOAT_MAX_ge by (simp add: isinf_def)

lemma py_pow_one: "py_pow 1 y = Inr (PyFloat 1)"
  by (simp add: py_pow_def not_isinf_small Let_def)

lemma py_pow_square:
  "\<not> isinf x \<Longrightarrow> \<not> isinf (x\<^sup>2) \<Longrightarrow> py_pow x 2 = Inr (PyFloat (x\<^sup>2))"
  by (simp add: py_pow_def not_isinf_small Let_def)

lemma py_pow_2_cases:
  "py_pow x 2 = Inl OverflowError \<or> (\<exists>r. py_pow x 2 = Inr (PyFloat r))"
  by (simp add: py_pow_def not_isinf_small Let_def)

lemma py_pow_huge: "py_pow (10 ^ 200) 4 = Inl OverflowError"
  by (simp add: py_pow_def isinf_def FLOAT_MAX_def Let_def)

lemmas law_defs = CarFollowLaw_s0_def CarFollowLaw_k_x_def CarFollowLaw_w_def
  CarFollowLaw_T_def CarFollowLaw_u_def py_div_def

lemmas IDM_defs = IDM_acel_def IDM_s_star_def IDM_v0_def IDM_delta_def IDM_b_def

lemmas Tampere_defs = Tampere_acel_def Tampere_cong_acc_def Tampere_free_acc_def
  Tampere_s_d_def Tampere_c1_def Tampere_c2_def Tampere_c3_def

lemmas init_defs = IDM_init_def Tampere_init_def Tampere_set_parameters_def
  Tampere_set_c1_def Tampere_set_c2_def Tampere_set_c3_def CarFollowLaw_init_def
  idm.defs tampere.defs carfollowlaw.defs C_1_def C_2_def C_3_def

lemmas ex_defs = ex_consts_def ex_consts_w0_def ex_Vehicle_init_def ex_head_def ex_slow_def
  ex_fast_def ex_tampere_def ex_tampere_free_def ex_idm_free_def ex_idm_fresh_def ex_idm_def
  ex_idm_next_def ex_idm_eq_def ex_idm_huge_def ex_idm_touch_def ex_idm_run_def
  ex_idm_run_next_def

text \<open>
  The desired spacing is only computed when the stored acceleration is a positive float.
\<close>

lemma IDM_s_star_Inr_pos:
  assumes "IDM_s_star c st = Inr ss"
  shows "\<exists>a. veh_a (base st) = PyFloat a \<and> 0 < a"
proof (cases "veh_a (base st)")
  case (PyFloat a)
  obtain dv where dv: "CarFollowLaw_dv st = Inr dv"
    using CarFollowLaw_dv_total by blast
  have "\<not> a * B < 0" and "a \<noteq> 0"
    using assms dv PyFloat
    by (auto simp add: IDM_s_star_def IDM_b_def py_div_def CarFollowLaw_s0_def
        split: if_splits)
  then have "0 < a"
    using B_pos by (auto simp add: mult_less_0_iff)
  then show ?thesis
    using PyFloat by simp
next
  case (PyComplex z)
  obtain dv where dv: "CarFollowLaw_dv st = Inr dv"
    using CarFollowLaw_dv_total by blast
  have False
    using assms dv PyComplex
    by (auto simp add: IDM_s_star_def IDM_b_def py_div_def CarFollowLaw_s0_def
        split: if_splits)
  then show ?thesis ..
qed

text \<open>What \<^verbatim>\<open>car_following\<close> leaves in the acceleration attribute.\<close>

lemma acceleration_after_IDM_car_following:
  "acceleration_after (IDM_car_following c vd st) =
     (if truthy (veh_lead (base st)) then IDM_acel c vd st
      else Inr (PyFloat (veh_control (base st))))"
  by (cases "IDM_acel c vd st") (simp_all add: acceleration_after_def IDM_car_following_def)

text \<open>A power that raises ends \<^verbatim>\<open>acel\<close> with its exception.\<close>

lemma IDM_acel_pow_raises:
  assumes "slot_v0 st = Some v0" and "v0 \<noteq> 0" and "slot_delta st = Some d"
    and "py_pow (veh_v (base st) / v0) d = Inl e"
  shows "IDM_acel c vd st = Inl e"
  using assms by (simp add: IDM_acel_def IDM_v0_def IDM_delta_def py_div_def)

text \<open>The examples, evaluated.\<close>

lemma ex_idm_s_star: "IDM_s_star ex_consts ex_idm = Inr 5"
  by (simp add: IDM_defs law_defs CarFollowLaw_dv_lead B_def ex_defs)

lemma ex_idm_eq_s_star: "IDM_s_star ex_consts ex_idm_eq = Inr (26 / 5)"
  by (simp add: IDM_defs law_defs CarFollowLaw_dv_lead B_def ex_defs)

lemma ex_idm_run_s_star: "IDM_s_star ex_consts ex_idm_run = Inr (63 / 10)"
  by (simp add: IDM_defs law_defs CarFollowLaw_dv_lead B_def ex_defs sqrt_9)

lemma ex_pow_4_9: "py_pow (2 / 3) 2 = Inr (PyFloat (4 / 9))"
  using py_pow_square [of "2 / 3"] by (simp add: not_isinf_small power2_eq_square)

lemma ex_pow_1_4: "py_pow (1 / 2) 2 = Inr (PyFloat (1 / 4))"
  using py_pow_square [of "1 / 2"] by (simp add: not_isinf_small power2_eq_square)

lemma ex_pow_0: "py_pow 0 4 = Inr (PyFloat 0)"
  by (simp add: py_pow_def not_isinf_small)

lemma ex_idm_acel: "IDM_acel ex_consts 25 ex_idm = Inr (PyFloat (9 / 2))"
proof -
  have s: "CarFollowLaw_s ex_idm = Inr 10"
    by (simp add: CarFollowLaw_s_lead ex_defs)
  have v: "veh_v (base ex_idm) = 0" "veh_a (base ex_idm) = PyFloat 6"
    "slot_v0 ex_idm = Some 25" "slot_delta ex_idm = Some 4"
    by (simp_all add: ex_defs)
  show ?thesis
    by (simp add: IDM_acel_def IDM_v0_def IDM_delta_def py_div_def ex_idm_s_star s v
        ex_pow_0 ex_pow_1_4)
qed

lemma ex_idm_run_acel: "IDM_acel ex_consts 25 ex_idm_run = Inr (PyFloat (2 / 3))"
proof -
  have s: "CarFollowLaw_s ex_idm_run = Inr (189 / 20)"
    by (simp add: CarFollowLaw_s_lead ex_defs)
  have v: "veh_v (base ex_idm_run) = 3" "veh_a (base ex_idm_run) = PyFloat 6"
    "slot_v0 ex_idm_run = Some (9 / 2)" "slot_delta ex_idm_run = Some 2"
    by (simp_all add: ex_defs)
  show ?thesis
    by (simp add: IDM_acel_def IDM_v0_def IDM_delta_def py_div_def ex_idm_run_s_star s v
        ex_pow_4_9)
qed

lemma ex_idm_run_step: "IDM_car_following ex_consts 25 ex_idm_run = Inr ex_idm_run_next"
  by (simp add: IDM_car_following_def ex_idm_run_acel)
     (simp add: ex_idm_run_next_def ex_idm_run_def)

lemma ex_idm_huge_acel: "IDM_acel ex_consts 25 ex_idm_huge = Inl OverflowError"
proof -
  have v: "veh_v (base ex_idm_huge) = 10 ^ 200"
    "slot_v0 ex_idm_huge = Some 1" "slot_delta ex_idm_huge = Some 4"
    by (simp_all add: ex_defs)
  have p: "py_pow (veh_v (base ex_idm_huge) / 1) 4 = Inl OverflowError"
    by (simp only: v div_by_1 py_pow_huge)
  show ?thesis
    by (rule IDM_acel_pow_raises [OF v(2) _ v(3) p]) simp
qed

lemma ex_idm_next_acel: "IDM_acel ex_consts 25 ex_idm_next = Inr (PyFloat (27 / 8))"
proof -
  have ss: "IDM_s_star ex_consts ex_idm_next = Inr 5"
    by (simp add: IDM_defs law_defs CarFollowLaw_dv_lead B_def ex_defs)
  have s: "CarFollowLaw_s ex_idm_next = Inr 10"
    by (simp add: CarFollowLaw_s_lead ex_defs)
  have v: "veh_v (base ex_idm_next) = 0" "veh_a (base ex_idm_next) = PyFloat (9 / 2)"
    "slot_v0 ex_idm_next = Some 25" "slot_delta ex_idm_next = Some 4"
    by (simp_all add: ex_defs)
  show ?thesis
    by (simp add: IDM_acel_def IDM_v0_def IDM_delta_def py_div_def ss s v ex_pow_0 ex_pow_1_4)
qed

lemma ex_idm_eq_acel: "IDM_acel ex_consts 2 ex_idm_eq = Inr (PyFloat (- 6))"
proof -
  have s: "CarFollowLaw_s ex_idm_eq = Inr (26 / 5)"
    by (simp add: CarFollowLaw_s_lead ex_defs)
  have v: "veh_v (base ex_idm_eq) = 2" "veh_a (base ex_idm_eq) = PyFloat 6"
    "slot_v0 ex_idm_eq = Some 2" "slot_delta ex_idm_eq = Some 4"
    by (simp_all add: ex_defs)
  show ?thesis
    by (simp add: IDM_acel_def IDM_v0_def IDM_delta_def py_div_def ex_idm_eq_s_star s v
        py_pow_one)
qed

section \<open>The Tampere law\<close>

text \<open>
  Claim C1. For a Tampere object with a leader and coefficients \<open>c1\<close>, \<open>c2\<close>, \<open>c3\<close>,
  \<^verbatim>\<open>acel(vd)\<close> is the minimum of the congestion term \<open>c1 * dv + c2 * (s - s_d)\<close> and the
  free-flow term \<open>c3 * (vd - v_t)\<close>, where \<open>dv\<close> and \<open>s\<close> are the speed and position
  differences to the leader and \<open>s_d = 1 / K_X + 1 / (W_I * K_X) * v\<close>. The divisions are
  those of the formula itself, so jam density and shockwave speed are taken non-zero. The
  own speed is read as \<^verbatim>\<open>v\<close> in \<open>s_d\<close> and as \<^verbatim>\<open>v_t\<close> elsewhere, as in the source.
\<close>

theorem Tampere_acel_min:
  assumes "slot_c1 st = Some c1" and "slot_c2 st = Some c2" and "slot_c3 st = Some c3"
    and "veh_lead (base st) = Some ld"
    and "K_X c \<noteq> 0" and "W_I c \<noteq> 0"
  shows "Tampere_s_d c st = Inr (1 / K_X c + 1 / (W_I c * K_X c) * veh_v (base st)) \<and>
         Tampere_acel c vd st =
           Inr (min (c1 * (veh_v_t ld - veh_v_t (base st)) +
                     c2 * ((veh_x_t ld - veh_x_t (base st)) -
                           (1 / K_X c + 1 / (W_I c * K_X c) * veh_v (base st))))
                    (c3 * (vd - veh_v_t (base st))))"
  using assms
  by (simp add: Tampere_defs law_defs CarFollowLaw_dv_lead CarFollowLaw_s_lead)

text \<open>
  The default Tampere follower at speed 20, 30 behind a leader at speed 15: desired spacing
  25, congestion term 0, free-flow term 5/2.
\<close>

theorem Tampere_acel_min_witness:
  "slot_c1 ex_tampere = Some (1 / 2) \<and> slot_c2 ex_tampere = Some (1 / 2) \<and>
   slot_c3 ex_tampere = Some (1 / 2) \<and> veh_lead (base ex_tampere) = Some ex_slow \<and>
   K_X ex_consts \<noteq> 0 \<and> W_I ex_consts \<noteq> 0 \<and>
   Tampere_s_d ex_consts ex_tampere = Inr 25 \<and>
   Tampere_acel ex_consts 25 ex_tampere = Inr 0"
proof -
  have h1: "slot_c1 ex_tampere = Some (1 / 2)"
    and h2: "slot_c2 ex_tampere = Some (1 / 2)"
    and h3: "slot_c3 ex_tampere = Some (1 / 2)"
    and h4: "veh_lead (base ex_tampere) = Some ex_slow"
    by (simp_all add: ex_defs init_defs)
  have h5: "K_X ex_consts \<noteq> 0" and h6: "W_I ex_consts \<noteq> 0"
    by (simp_all add: ex_consts_def)
  have v: "veh_v (base ex_tampere) = 20" "veh_v_t (base ex_tampere) = 20"
    "veh_x_t (base ex_tampere) = 0" "veh_v_t ex_slow = 15" "veh_x_t ex_slow = 30"
    by (simp_all add: ex_defs init_defs)
  show ?thesis
    using h1 h2 h3 h4 h5 h6 Tampere_acel_min [OF h1 h2 h3 h4 h5 h6, of 25]
    by (simp add: v ex_consts_def)
qed

section \<open>The base contract\<close>

text \<open>
  Claim C8. Without a leader both the relative speed \<^verbatim>\<open>dv\<close> and the spacing \<^verbatim>\<open>s\<close>
  are 0; with a leader \<open>dv\<close> is the leader's speed minus the own speed and \<open>s\<close> the
  leader's position minus the own position.
\<close>

theorem dv_and_s_by_leader:
  assumes "veh_lead (base st) = None" and "veh_lead (base st') = Some ld"
  shows "CarFollowLaw_dv st = Inr 0 \<and> CarFollowLaw_s st = Inr 0 \<and>
         CarFollowLaw_dv st' = Inr (veh_v_t ld - veh_v_t (base st')) \<and>
         CarFollowLaw_s st' = Inr (veh_x_t ld - veh_x_t (base st'))"
  using assms
  by (simp add: CarFollowLaw_dv_def CarFollowLaw_s_def CarFollowLaw_vl_def CarFollowLaw_xl_def)

theorem dv_and_s_by_leader_witness:
  "veh_lead (base ex_idm_free) = None \<and> veh_lead (base ex_tampere) = Some ex_slow \<and>
   CarFollowLaw_dv ex_idm_free = Inr 0 \<and> CarFollowLaw_s ex_idm_free = Inr 0 \<and>
   CarFollowLaw_dv ex_tampere = Inr (- 5) \<and> CarFollowLaw_s ex_tampere = Inr 30"
proof -
  have h1: "veh_lead (base ex_idm_free) = None"
    and h2: "veh_lead (base ex_tampere) = Some ex_slow"
    by (simp_all add: ex_defs init_defs)
  have v: "veh_v_t (base ex_tampere) = 20" "veh_x_t (base ex_tampere) = 0"
    "veh_v_t ex_slow = 15" "veh_x_t ex_slow = 30"
    by (simp_all add: ex_defs init_defs)
  show ?thesis
    using h1 h2 dv_and_s_by_leader [OF h1 h2] by (simp add: v)
qed

text \<open>
  Claim C6. For an IDM or a Tampere object without a leader, \<^verbatim>\<open>step_evolution\<close> with
  control input \<open>X\<close> leaves the acceleration at exactly \<open>X\<close>, whatever the desired speed.
  The leader reference is the one \<^verbatim>\<open>car_following\<close> sees, after \<^verbatim>\<open>shift_state\<close>.
\<close>

theorem step_evolution_leaderless:
  assumes "veh_lead (base ist) = None"
    and "veh_lead (shift_state (base ist)) = veh_lead (base ist)"
    and "veh_lead (base tst) = None"
    and "veh_lead (shift_state (base tst)) = veh_lead (base tst)"
  shows "acceleration_after
           (CarFollowLaw_step_evolution shift_state (IDM_car_following c) vd X ist) =
           Inr (PyFloat X) \<and>
         acceleration_after
           (CarFollowLaw_step_evolution shift_state (Tampere_car_following c) vd X tst) =
           Inr (PyFloat X)"
  using assms
  by (simp add: acceleration_after_def CarFollowLaw_step_evolution_def IDM_car_following_def
      Tampere_car_following_def)

theorem step_evolution_leaderless_witness:
  "veh_lead (base ex_idm_free) = None \<and>
   veh_lead (ex_shift_state (base ex_idm_free)) = veh_lead (base ex_idm_free) \<and>
   veh_lead (base ex_tampere_free) = None \<and>
   veh_lead (ex_shift_state (base ex_tampere_free)) = veh_lead (base ex_tampere_free) \<and>
   acceleration_after
     (CarFollowLaw_step_evolution ex_shift_state (IDM_car_following ex_consts) 25 (3 / 10)
        ex_idm_free) = Inr (PyFloat (3 / 10)) \<and>
   acceleration_after
     (CarFollowLaw_step_evolution ex_shift_state (Tampere_car_following ex_consts) 25 (3 / 10)
        ex_tampere_free) = Inr (PyFloat (3 / 10))"
proof -
  have h1: "veh_lead (base ex_idm_free) = None"
    and h2: "veh_lead (ex_shift_state (base ex_idm_free)) = veh_lead (base ex_idm_free)"
    and h3: "veh_lead (base ex_tampere_free) = None"
    and h4: "veh_lead (ex_shift_state (base ex_tampere_free)) = veh_lead (base ex_tampere_free)"
    by (simp_all add: ex_defs init_defs)
  show ?thesis
    using h1 h2 h3 h4 step_evolution_leaderless [OF h1 h2 h3 h4, of ex_consts 25 "3 / 10"]
    by simp
qed

section \<open>The IDM law\<close>

text \<open>
  Claim C2. An IDM object whose \<^verbatim>\<open>v0\<close> was never assigned, as the constructor
  leaves it (it assigns neither \<^verbatim>\<open>_delta\<close> nor \<^verbatim>\<open>_v0\<close>), raises AttributeError in
  \<^verbatim>\<open>car_following\<close>, and so in \<^verbatim>\<open>step_evolution\<close>, whenever a leader is present:
  \<^verbatim>\<open>acel\<close> reads \<^verbatim>\<open>self.v0\<close> before anything that could fail otherwise.
\<close>

theorem IDM_fresh_raises_AttributeError:
  assumes "slot_v0 st = None" and "veh_lead (base st) = Some ld"
    and "veh_lead (shift_state (base st)) = veh_lead (base st)"
  shows "IDM_car_following c vd st = Inl AttributeError \<and>
         CarFollowLaw_step_evolution shift_state (IDM_car_following c) vd ctl st =
           Inl AttributeError \<and>
         slot_v0 (IDM_init Vehicle_init x0 v0 lead) = None \<and>
         slot_delta (IDM_init Vehicle_init x0 v0 lead) = None"
  using assms
  by (simp add: IDM_car_following_def IDM_acel_def IDM_v0_def CarFollowLaw_step_evolution_def
      init_defs)

theorem IDM_fresh_raises_AttributeError_witness:
  "slot_v0 ex_idm_fresh = None \<and> veh_lead (base ex_idm_fresh) = Some ex_slow \<and>
   veh_lead (ex_shift_state (base ex_idm_fresh)) = veh_lead (base ex_idm_fresh) \<and>
   IDM_car_following ex_consts 25 ex_idm_fresh = Inl AttributeError \<and>
   CarFollowLaw_step_evolution ex_shift_state (IDM_car_following ex_consts) 25 0 ex_idm_fresh =
     Inl AttributeError"
proof -
  have h1: "slot_v0 ex_idm_fresh = None"
    and h2: "veh_lead (base ex_idm_fresh) = Some ex_slow"
    and h3: "veh_lead (ex_shift_state (base ex_idm_fresh)) = veh_lead (base ex_idm_fresh)"
    by (simp_all add: ex_defs init_defs)
  show ?thesis
    using h1 h2 h3 IDM_fresh_raises_AttributeError
      [where st = ex_idm_fresh and shift_state = ex_shift_state and c = ex_consts
         and vd = 25 and ctl = 0, OF h1 h2 h3]
    by simp
qed

text \<open>
  Claim C3, as stated, fails: the factor of the IDM formula is not a fixed parameter of
  the vehicle. The follower at rest starts with a stored acceleration of 6 and computes
  6 * 3/4; \<^verbatim>\<open>car_following\<close> stores that result, and the next call, on otherwise
  unchanged data, multiplies the same bracket 3/4 by 9/2 instead of 6.
\<close>

theorem IDM_acel_factor_counterexample:
  "veh_a (base ex_idm) = PyFloat 6 \<and>
   IDM_acel ex_consts 25 ex_idm = Inr (PyFloat (6 * (3 / 4))) \<and>
   IDM_car_following ex_consts 25 ex_idm = Inr ex_idm_next \<and>
   IDM_acel ex_consts 25 ex_idm_next = Inr (PyFloat (9 / 2 * (3 / 4))) \<and>
   IDM_acel ex_consts 25 ex_idm_next \<noteq> Inr (PyFloat (6 * (3 / 4)))"
proof -
  have a: "veh_a (base ex_idm) = PyFloat 6" and l: "veh_lead (base ex_idm) = Some ex_head"
    by (simp_all add: ex_defs)
  have step: "IDM_car_following ex_consts 25 ex_idm = Inr ex_idm_next"
    by (simp add: IDM_car_following_def l ex_idm_acel) (simp add: ex_idm_next_def)
  show ?thesis
    by (simp add: a step ex_idm_acel ex_idm_next_acel)
qed

text \<open>
  Claim C3, amended. For an IDM object with a leader on which the formula evaluates
  (\<^verbatim>\<open>v0\<close> assigned and non-zero, \<^verbatim>\<open>delta\<close> assigned, the power of the speed ratio
  evaluates to \<open>p\<close>, the desired spacing to \<open>ss\<close>, the spacing is non-zero and the square
  of the spacing ratio evaluates to \<open>r2\<close>), the computed acceleration is
  \<open>a * (1 - p - r2)\<close> in Python's arithmetic, where \<open>a\<close> is the vehicle's acceleration
  attribute: the very attribute in which \<^verbatim>\<open>car_following\<close> stores this result. A power
  that raises (zero to a negative exponent, an overflow) is excluded by asking for its
  value; a complex power is not.
\<close>

theorem IDM_acel_formula:
  assumes "slot_v0 st = Some v0" and "v0 \<noteq> 0" and "slot_delta st = Some d"
    and "py_pow (veh_v (base st) / v0) d = Inr p"
    and "veh_lead (base st) = Some ld" and "veh_x_t ld \<noteq> veh_x_t (base st)"
    and "IDM_s_star c st = Inr ss"
    and "py_pow (ss / (veh_x_t ld - veh_x_t (base st))) 2 = Inr r2"
  shows "IDM_acel c vd st =
           Inr (py_mul (veh_a (base st)) (py_sub (py_sub (PyFloat 1) p) r2)) \<and>
         acceleration_after (IDM_car_following c vd st) = IDM_acel c vd st"
proof -
  have "IDM_acel c vd st =
           Inr (py_mul (veh_a (base st)) (py_sub (py_sub (PyFloat 1) p) r2))"
    using assms
    by (simp add: IDM_acel_def IDM_v0_def IDM_delta_def py_div_def CarFollowLaw_s_lead)
  then show ?thesis
    using assms(5) by (simp add: acceleration_after_IDM_car_following)
qed

text \<open>
  The follower at speed 3 behind the faster leader: speed ratio 2/3 squared, desired
  spacing 63/10 over spacing 189/20 squared, and a stored acceleration of 6.
\<close>

theorem IDM_acel_formula_witness:
  "slot_v0 ex_idm_run = Some (9 / 2) \<and> (9 / 2 :: real) \<noteq> 0 \<and> slot_delta ex_idm_run = Some 2 \<and>
   py_pow (veh_v (base ex_idm_run) / (9 / 2)) 2 = Inr (PyFloat (4 / 9)) \<and>
   veh_lead (base ex_idm_run) = Some ex_fast \<and> veh_x_t ex_fast \<noteq> veh_x_t (base ex_idm_run) \<and>
   IDM_s_star ex_consts ex_idm_run = Inr (63 / 10) \<and>
   py_pow (63 / 10 / (veh_x_t ex_fast - veh_x_t (base ex_idm_run))) 2 = Inr (PyFloat (4 / 9)) \<and>
   IDM_acel ex_consts 25 ex_idm_run = Inr (PyFloat (6 * (1 - 4 / 9 - 4 / 9))) \<and>
   acceleration_after (IDM_car_following ex_consts 25 ex_idm_run) = Inr (PyFloat (2 / 3))"
proof -
  have v: "veh_a (base ex_idm_run) = PyFloat 6" "veh_v (base ex_idm_run) = 3"
    "veh_x_t (base ex_idm_run) = 0" "veh_x_t ex_fast = 189 / 20"
    by (simp_all add: ex_defs)
  have h1: "slot_v0 ex_idm_run = Some (9 / 2)" and h2: "(9 / 2 :: real) \<noteq> 0"
    and h3: "slot_delta ex_idm_run = Some 2"
    and h5: "veh_lead (base ex_idm_run) = Some ex_fast"
    and h6: "veh_x_t ex_fast \<noteq> veh_x_t (base ex_idm_run)"
    by (simp_all add: ex_defs)
  have h4: "py_pow (veh_v (base ex_idm_run) / (9 / 2)) 2 = Inr (PyFloat (4 / 9))"
    by (simp add: v ex_pow_4_9)
  note h7 = ex_idm_run_s_star
  have h8: "py_pow (63 / 10 / (veh_x_t ex_fast - veh_x_t (base ex_idm_run))) 2 =
      Inr (PyFloat (4 / 9))"
    by (simp add: v ex_pow_4_9)
  show ?thesis
    using h1 h2 h3 h4 h5 h6 h7 h8 IDM_acel_formula [OF h1 h2 h3 h4 h5 h6 h7 h8, of 25]
    by (simp add: v)
qed

text \<open>
  Claim C4. For an IDM object with a leader, \<^verbatim>\<open>s_star()\<close> is
  \<open>1 / K_X + max 0 (v * DT + (v * dv) / (2 * sqrt (a * B)))\<close>, where \<open>a\<close> is the
  vehicle's stored acceleration and \<open>B\<close> the comfortable deceleration. The square root and
  the division are those of the formula, so \<open>a\<close> is taken to be a positive float and the
  jam density non-zero. That \<open>a\<close> is no constant but the previous step's acceleration is
  the second part, which holds for every object \<open>st0\<close>: \<^verbatim>\<open>car_following\<close> leaves in that
  attribute what \<^verbatim>\<open>acel\<close> returned when there is a leader, and the control otherwise.
\<close>

theorem IDM_s_star_formula:
  assumes "veh_lead (base st) = Some ld" and "K_X c \<noteq> 0"
    and "veh_a (base st) = PyFloat a" and "0 < a"
  shows "IDM_s_star c st =
           Inr (1 / K_X c +
                max 0 (veh_v (base st) * DT c +
                       (veh_v (base st) * (veh_v_t ld - veh_v_t (base st))) /
                       (2 * sqrt (a * B)))) \<and>
         acceleration_after (IDM_car_following c vd st0) =
           (if truthy (veh_lead (base st0)) then IDM_acel c vd st0
            else Inr (PyFloat (veh_control (base st0))))"
proof -
  have pos: "0 < a * B" "\<not> a * B < 0"
    using assms(4) B_pos by (simp_all add: not_less zero_le_mult_iff)
  have nz: "a \<noteq> 0" "B \<noteq> 0"
    using assms(4) B_pos by simp_all
  have "IDM_s_star c st =
           Inr (1 / K_X c +
                max 0 (veh_v (base st) * DT c +
                       (veh_v (base st) * (veh_v_t ld - veh_v_t (base st))) /
                       (2 * sqrt (a * B))))"
    using assms(1,2,3) pos nz
    by (simp add: IDM_s_star_def IDM_b_def law_defs CarFollowLaw_dv_lead)
  then show ?thesis
    by (simp add: acceleration_after_IDM_car_following)
qed

text \<open>
  The follower behind the faster leader computes 2/3 in its first step; in the state
  left by that step the desired spacing is 5 + 3/10 + 6 / (2 * sqrt (2/3 * 3/2)) = 83/10.
\<close>

theorem IDM_s_star_formula_witness:
  "veh_lead (base ex_idm_run_next) = Some ex_fast \<and> K_X ex_consts \<noteq> 0 \<and>
   veh_a (base ex_idm_run_next) = PyFloat (2 / 3) \<and> (0 :: real) < 2 / 3 \<and>
   IDM_s_star ex_consts ex_idm_run_next = Inr (83 / 10) \<and>
   IDM_car_following ex_consts 25 ex_idm_run = Inr ex_idm_run_next \<and>
   acceleration_after (IDM_car_following ex_consts 25 ex_idm_run) = Inr (PyFloat (2 / 3))"
proof -
  have h1: "veh_lead (base ex_idm_run_next) = Some ex_fast"
    and h2: "K_X ex_consts \<noteq> 0"
    and h3: "veh_a (base ex_idm_run_next) = PyFloat (2 / 3)"
    and h4: "(0 :: real) < 2 / 3"
    by (simp_all add: ex_defs)
  have v: "veh_v (base ex_idm_run_next) = 3" "veh_v_t (base ex_idm_run_next) = 3"
    "veh_v_t ex_fast = 5" "K_X ex_consts = 1 / 5" "DT ex_consts = 1 / 10"
    "veh_lead (base ex_idm_run) = Some ex_fast"
    by (simp_all add: ex_defs)
  show ?thesis
    using h1 h2 h3 h4 IDM_s_star_formula [OF h1 h2 h3 h4, of 25 ex_idm_run]
    by (simp add: v B_def ex_idm_run_step ex_idm_run_acel)
qed

text \<open>
  Claim C5, as stated, fails: an IDM follower driving at its desired speed (2) at exactly
  its desired spacing (26/5) does not compute 0. Both quotients of the formula are 1, the
  bracket is 1 - 1 - 1, and the result is minus the stored acceleration.
\<close>

theorem IDM_equilibrium_counterexample:
  "slot_v0 ex_idm_eq = Some (veh_v (base ex_idm_eq)) \<and>
   IDM_s_star ex_consts ex_idm_eq = Inr (26 / 5) \<and>
   CarFollowLaw_s ex_idm_eq = Inr (26 / 5) \<and>
   IDM_acel ex_consts 2 ex_idm_eq = Inr (PyFloat (- 6)) \<and>
   IDM_acel ex_consts 2 ex_idm_eq \<noteq> Inr (PyFloat 0)"
proof -
  have "slot_v0 ex_idm_eq = Some (veh_v (base ex_idm_eq))"
    and "CarFollowLaw_s ex_idm_eq = Inr (26 / 5)"
    by (simp_all add: CarFollowLaw_s_lead ex_defs)
  then show ?thesis
    by (simp add: ex_idm_eq_s_star ex_idm_eq_acel)
qed

text \<open>
  Claim C5, amended. For an IDM object whose own speed equals its desired speed and whose
  spacing equals its desired spacing \<^verbatim>\<open>s_star()\<close>, both non-zero so that the two
  divisions evaluate, the computed acceleration is exactly \<open>- a\<close>, where \<open>a\<close> is the
  stored acceleration; \<open>a\<close> is a positive float there, so the result is never 0.
\<close>

theorem IDM_acel_at_equilibrium:
  assumes "slot_v0 st = Some (veh_v (base st))" and "slot_delta st = Some d"
    and "IDM_s_star c st = Inr ss" and "CarFollowLaw_s st = Inr ss"
    and "veh_v (base st) \<noteq> 0" and "ss \<noteq> 0"
  shows "\<exists>a. veh_a (base st) = PyFloat a \<and> 0 < a \<and> IDM_acel c vd st = Inr (PyFloat (- a))"
proof -
  obtain a where a: "veh_a (base st) = PyFloat a" "0 < a"
    using IDM_s_star_Inr_pos [OF assms(3)] by blast
  have "IDM_acel c vd st = Inr (PyFloat (- a))"
    using assms a(1)
    by (simp add: IDM_acel_def IDM_v0_def IDM_delta_def py_div_def py_pow_one)
  then show ?thesis
    using a by simp
qed

theorem IDM_acel_at_equilibrium_witness:
  "slot_v0 ex_idm_eq = Some (veh_v (base ex_idm_eq)) \<and> slot_delta ex_idm_eq = Some 4 \<and>
   IDM_s_star ex_consts ex_idm_eq = Inr (26 / 5) \<and> CarFollowLaw_s ex_idm_eq = Inr (26 / 5) \<and>
   veh_v (base ex_idm_eq) \<noteq> 0 \<and> (26 / 5 :: real) \<noteq> 0 \<and>
   veh_a (base ex_idm_eq) = PyFloat 6 \<and>
   IDM_acel ex_consts 2 ex_idm_eq = Inr (PyFloat (- 6))"
proof -
  have h1: "slot_v0 ex_idm_eq = Some (veh_v (base ex_idm_eq))"
    and h2: "slot_delta ex_idm_eq = Some 4"
    and h5: "veh_v (base ex_idm_eq) \<noteq> 0" and h6: "(26 / 5 :: real) \<noteq> 0"
    by (simp_all add: ex_defs)
  note h3 = ex_idm_eq_s_star
  have h4: "CarFollowLaw_s ex_idm_eq = Inr (26 / 5)"
    by (simp add: CarFollowLaw_s_lead ex_defs)
  have v: "veh_a (base ex_idm_eq) = PyFloat 6"
    by (simp add: ex_defs)
  show ?thesis
    using h1 h2 h3 h4 h5 h6 IDM_acel_at_equilibrium [OF h1 h2 h3 h4 h5 h6, of 2]
    by (simp add: v)
qed

text \<open>
  Claim C9. The property \<^verbatim>\<open>b\<close> of an IDM object is the module constant \<open>B = 1.5\<close> in
  every state, also right after an assignment through its setter; the assignment changes
  neither the desired spacing nor the acceleration, and \<^verbatim>\<open>car_following\<close> does after it
  what it does before it.
\<close>

theorem IDM_b_is_constant:
  "IDM_b st = B \<and> IDM_b (IDM_set_b val st) = B \<and> B = 3 / 2 \<and>
   IDM_s_star c (IDM_set_b val st) = IDM_s_star c st \<and>
   IDM_acel c vd (IDM_set_b val st) = IDM_acel c vd st \<and>
   IDM_car_following c vd (IDM_set_b val st) =
     bind_res (IDM_car_following c vd st) (\<lambda>st'. Inr (IDM_set_b val st'))"
proof -
  have dv: "CarFollowLaw_dv (IDM_set_b val st) = CarFollowLaw_dv st"
    by (simp add: CarFollowLaw_dv_def CarFollowLaw_vl_def IDM_set_b_def)
  have s: "CarFollowLaw_s (IDM_set_b val st) = CarFollowLaw_s st"
    by (simp add: CarFollowLaw_s_def CarFollowLaw_xl_def IDM_set_b_def)
  have star: "IDM_s_star c (IDM_set_b val st) = IDM_s_star c st"
    by (simp add: IDM_s_star_def dv IDM_b_def) (simp add: IDM_set_b_def)
  have acel: "IDM_acel c vd (IDM_set_b val st) = IDM_acel c vd st"
    by (simp add: IDM_acel_def star s IDM_v0_def IDM_delta_def) (simp add: IDM_set_b_def)
  have cf: "IDM_car_following c vd (IDM_set_b val st) =
     bind_res (IDM_car_following c vd st) (\<lambda>st'. Inr (IDM_set_b val st'))"
    by (cases "IDM_acel c vd st")
       (simp_all add: IDM_car_following_def acel, simp_all add: IDM_set_b_def)
  show ?thesis
    using star acel cf by (simp add: IDM_b_def B_def)
qed

text \<open>
  Claim C10. The desired-speed argument of \<^verbatim>\<open>IDM.acel\<close> and \<^verbatim>\<open>IDM.car_following\<close> is
  never used: two calls that differ only in it return the same value or raise the same
  exception, and so do two calls of \<^verbatim>\<open>step_evolution\<close>.
\<close>

theorem IDM_vd_unused:
  "IDM_acel c vd1 st = IDM_acel c vd2 st \<and>
   IDM_car_following c vd1 st = IDM_car_following c vd2 st \<and>
   CarFollowLaw_step_evolution shift_state (IDM_car_following c) vd1 ctl st =
   CarFollowLaw_step_evolution shift_state (IDM_car_following c) vd2 ctl st"
proof -
  have acel: "IDM_acel c vd1 s = IDM_acel c vd2 s" for s
    by (simp add: IDM_acel_def)
  have cf: "IDM_car_following c vd1 s = IDM_car_following c vd2 s" for s
    by (simp add: IDM_car_following_def acel)
  show ?thesis
    by (simp add: CarFollowLaw_step_evolution_def acel cf)
qed

section \<open>Division by zero\<close>



end
